theory Spec2Isabelle
  imports Main
begin

section \<open>The Haxe back end of TARDIS Go: type lowering, conversions, type metadata\<close>

text \<open>
  A shallow embedding of \<^verbatim>\<open>haxe/types.go\<close>.  The functions of that file produce Haxe
  source text; they are modelled as functions into \<open>string\<close>.  Three effects of the Go
  code are made explicit:
  \<^item> the calls of \<^verbatim>\<open>pogo.LogWarning\<close> and \<^verbatim>\<open>pogo.LogError\<close> are returned as a list of
    log entries, in the order in which they are made;
  \<^item> a run-time panic (an index out of range, a failed type assertion) is the left
    summand of the result;
  \<^item> the recursion of \<^verbatim>\<open>LangType\<close> follows the type graph, which is cyclic for a
    recursive type declaration, so the function takes fuel: \<open>None\<close> means that the fuel
    did not suffice.
\<close>

subsection \<open>Characters and strings\<close>

definition dquote :: char where "dquote = CHR 0x22"
definition newline :: char where "newline = CHR 0x0A"
definition tab :: char where "tab = CHR 0x09"

text \<open>\<^verbatim>\<open>fmt.Sprintf("%d", n)\<close>: the decimal digits of an integer.\<close>

function digits10 :: "nat \<Rightarrow> string" where
  "digits10 n =
     (if n < 10 then [''0123456789'' ! n]
      else digits10 (n div 10) @ [''0123456789'' ! (n mod 10)])"
  by pat_completeness auto
termination
  by (relation "measure (\<lambda>n. n)") auto

declare digits10.simps [simp del]

definition Sprintf_d :: "int \<Rightarrow> string" where
  "Sprintf_d i = (if i < 0 then ''-'' @ digits10 (nat (- i)) else digits10 (nat i))"

text \<open>\<^verbatim>\<open>strings.Split(s, sep)\<close> for a separator of one byte.\<close>

fun Split :: "string \<Rightarrow> char \<Rightarrow> string list" where
  "Split [] sep = [[]]"
| "Split (c # cs) sep =
     (if c = sep then [] # Split cs sep
      else (case Split cs sep of [] \<Rightarrow> [[c]] | w # ws \<Rightarrow> (c # w) # ws))"

text \<open>\<^verbatim>\<open>strings.Replace(s, "_", ".", -1)\<close>.\<close>

definition Replace_underscore :: "string \<Rightarrow> string" where
  "Replace_underscore s = map (\<lambda>c. if c = CHR ''_'' then CHR ''.'' else c) s"

text \<open>\<^verbatim>\<open>strings.Replace(s, "...", ".", -1)\<close>: the non-overlapping occurrences, from the left.\<close>

fun Replace_dots :: "string \<Rightarrow> string" where
  "Replace_dots (a # b # c # cs) =
     (if a = CHR ''.'' \<and> b = CHR ''.'' \<and> c = CHR ''.'' then CHR ''.'' # Replace_dots cs
      else a # Replace_dots (b # c # cs))"
| "Replace_dots cs = cs"

text \<open>\<^verbatim>\<open>strings.HasPrefix(s, p)\<close>.\<close>

definition HasPrefix :: "string \<Rightarrow> string \<Rightarrow> bool" where
  "HasPrefix s p = (take (length p) s = p)"

subsection \<open>The types of the front end\<close>

text \<open>
  \<^verbatim>\<open>types.BasicKind\<close> of \<^verbatim>\<open>go/types\<close>.  \<^verbatim>\<open>types.Byte\<close> is \<^verbatim>\<open>types.Uint8\<close> and
  \<^verbatim>\<open>types.Rune\<close> is \<^verbatim>\<open>types.Int32\<close>.
\<close>

datatype BasicKind =
    types_Invalid
  | types_Bool | types_Int | types_Int8 | types_Int16 | types_Int32 | types_Int64
  | types_Uint | types_Uint8 | types_Uint16 | types_Uint32 | types_Uint64 | types_Uintptr
  | types_Float32 | types_Float64 | types_Complex64 | types_Complex128
  | types_String | types_UnsafePointer
  | types_UntypedBool | types_UntypedInt | types_UntypedRune | types_UntypedFloat
  | types_UntypedComplex | types_UntypedString | types_UntypedNil

abbreviation types_Byte :: BasicKind where "types_Byte \<equiv> types_Uint8"
abbreviation types_Rune :: BasicKind where "types_Rune \<equiv> types_Int32"

text \<open>
  \<^verbatim>\<open>types.Type\<close>.  A named type is a handle (the pointer \<^verbatim>\<open>*types.Named\<close>); what it
  is declared as is looked up, so that a type may refer to itself.  \<open>OtherType r\<close> is any
  other implementation of the interface, \<open>r\<close> being \<^verbatim>\<open>reflect.TypeOf(t).String()\<close>.
\<close>

datatype Type =
    Basic BasicKind
  | Named nat
  | Interface
  | Pointer Type
  | Slice Type
  | Array Type int
  | Struct "Type list"
  | Map Type Type
  | Chan Type
  | Signature
  | Tuple "Type list"
  | OtherType string

text \<open>
  An SSA value, as far as this file looks at it: a \<^verbatim>\<open>*ssa.Function\<close> with the type of
  its receiver (if it is a method), the name of its package (if it has one) and its name;
  or any other value, with its type.
\<close>

datatype Value =
    ssa_Function "Type option" "string option" string
  | ssa_Value nat Type

datatype LogEntry =
    LogWarning string string string
  | LogError string string string

datatype panic = IndexOutOfRange | SliceBoundsOutOfRange | TypeAssertionFailed

type_synonym 'a outcome = "(panic + 'a \<times> LogEntry list) option"

definition Return :: "'a \<Rightarrow> LogEntry list \<Rightarrow> 'a outcome" where
  "Return a lg = Some (Inr (a, lg))"

definition Panics :: "panic \<Rightarrow> 'a outcome" where
  "Panics p = Some (Inl p)"

definition andThen :: "'a outcome \<Rightarrow> ('a \<Rightarrow> 'b outcome) \<Rightarrow> 'b outcome" where
  "andThen m f =
     (case m of
        None \<Rightarrow> None
      | Some (Inl p) \<Rightarrow> Some (Inl p)
      | Some (Inr (a, lg)) \<Rightarrow>
          (case f a of
             None \<Rightarrow> None
           | Some (Inl p) \<Rightarrow> Some (Inl p)
           | Some (Inr (b, lg')) \<Rightarrow> Some (Inr (b, lg @ lg'))))"

subsection \<open>What the file calls and does not define\<close>

text \<open>
  The functions below are called by \<^verbatim>\<open>haxe/types.go\<close> and defined elsewhere (in
  \<^verbatim>\<open>go/types\<close>, in package \<^verbatim>\<open>pogo\<close>, in other files of package \<^verbatim>\<open>haxe\<close>).  They are
  parameters of the model: every theorem holds for all of them, under the hypotheses it
  states.  What they log themselves is not modelled.
\<close>

record extern =
  TypeString :: "Type \<Rightarrow> string"
  NamedUnderlying :: "nat \<Rightarrow> Type"
  IsUnsigned :: "BasicKind \<Rightarrow> bool"
  Identical :: "Type \<Rightarrow> Type \<Rightarrow> bool"
  AssignableTo :: "Type \<Rightarrow> Type \<Rightarrow> bool"
  IsValidInPogo :: "Type \<Rightarrow> string \<Rightarrow> bool"
  LogTypeUse :: "Type \<Rightarrow> string"
  MakeID :: "string \<Rightarrow> string"
  IndirectValue :: "Value \<Rightarrow> string \<Rightarrow> string"
  intTypeCoersion :: "Type \<Rightarrow> string \<Rightarrow> string \<Rightarrow> string"
  haxeStringConst :: "string \<Rightarrow> string \<Rightarrow> string"
  arrayOffsetCalc :: "Type \<Rightarrow> string"
  Sizeof :: "Type \<Rightarrow> int"
  LangName :: "string \<Rightarrow> string \<Rightarrow> string"

text \<open>\<^verbatim>\<open>t.Underlying()\<close>.\<close>

definition Underlying :: "extern \<Rightarrow> Type \<Rightarrow> Type" where
  "Underlying x t = (case t of Named h \<Rightarrow> NamedUnderlying x h | _ \<Rightarrow> t)"

text \<open>\<^verbatim>\<open>v.(ssa.Value).Type()\<close>.\<close>

fun ValueType :: "Value \<Rightarrow> Type" where
  "ValueType (ssa_Function rx pkg nm) = Signature"
| "ValueType (ssa_Value i t) = t"

subsection \<open>getHaxeClass\<close>

text \<open>
  Go panics where \<^verbatim>\<open>fullname[0]\<close>, \<^verbatim>\<open>s[0]\<close> or \<^verbatim>\<open>splits[1][1:]\<close> is taken of an empty
  string.
\<close>

definition getHaxeClass :: "string \<Rightarrow> panic + string" where
  "getHaxeClass fullname =
     (case fullname of
        [] \<Rightarrow> Inl IndexOutOfRange
      | f0 # _ \<Rightarrow>
          if f0 \<noteq> CHR ''*'' then
            (let bits = Split fullname CHR ''/'';
                 s = last bits
             in case s of
                  [] \<Rightarrow> Inl IndexOutOfRange
                | s0 # _ \<Rightarrow>
                    if s0 = CHR ''_'' then
                      (let splits = Split s CHR ''.''
                       in if length splits = 2 then
                            (case splits ! 1 of
                               [] \<Rightarrow> Inl SliceBoundsOutOfRange
                             | _ # goType \<Rightarrow> Inr (Replace_dots (Replace_underscore goType)))
                          else Inr [])
                    else Inr [])
          else Inr [])"

subsection \<open>LangType\<close>

text \<open>The inner switch of \<^verbatim>\<open>LangType\<close>, on the kind of a basic type (lines 21 to 73).\<close>

fun LangTypeBasic :: "BasicKind \<Rightarrow> bool \<Rightarrow> string \<Rightarrow> string \<times> LogEntry list" where
  "LangTypeBasic types_Bool retInitVal errorInfo = (if retInitVal then ''false'' else ''Bool'', [])"
| "LangTypeBasic types_UntypedBool retInitVal errorInfo = (if retInitVal then ''false'' else ''Bool'', [])"
| "LangTypeBasic types_String retInitVal errorInfo = (if retInitVal then [dquote, dquote] else ''String'', [])"
| "LangTypeBasic types_UntypedString retInitVal errorInfo = (if retInitVal then [dquote, dquote] else ''String'', [])"
| "LangTypeBasic types_Float64 retInitVal errorInfo = (if retInitVal then ''0.0'' else ''Float'', [])"
| "LangTypeBasic types_Float32 retInitVal errorInfo = (if retInitVal then ''0.0'' else ''Float'', [])"
| "LangTypeBasic types_UntypedFloat retInitVal errorInfo = (if retInitVal then ''0.0'' else ''Float'', [])"
| "LangTypeBasic types_Complex64 retInitVal errorInfo = (if retInitVal then ''new Complex(0.0,0.0)'' else ''Complex'', [])"
| "LangTypeBasic types_Complex128 retInitVal errorInfo = (if retInitVal then ''new Complex(0.0,0.0)'' else ''Complex'', [])"
| "LangTypeBasic types_UntypedComplex retInitVal errorInfo = (if retInitVal then ''new Complex(0.0,0.0)'' else ''Complex'', [])"
| "LangTypeBasic types_Int retInitVal errorInfo = (if retInitVal then ''0'' else ''Int'', [])"
| "LangTypeBasic types_Int8 retInitVal errorInfo = (if retInitVal then ''0'' else ''Int'', [])"
| "LangTypeBasic types_Int16 retInitVal errorInfo = (if retInitVal then ''0'' else ''Int'', [])"
| "LangTypeBasic types_Int32 retInitVal errorInfo = (if retInitVal then ''0'' else ''Int'', [])"
| "LangTypeBasic types_UntypedRune retInitVal errorInfo = (if retInitVal then ''0'' else ''Int'', [])"
| "LangTypeBasic types_Uint8 retInitVal errorInfo = (if retInitVal then ''0'' else ''Int'', [])"
| "LangTypeBasic types_Uint16 retInitVal errorInfo = (if retInitVal then ''0'' else ''Int'', [])"
| "LangTypeBasic types_Uint retInitVal errorInfo = (if retInitVal then ''0'' else ''Int'', [])"
| "LangTypeBasic types_Uint32 retInitVal errorInfo = (if retInitVal then ''0'' else ''Int'', [])"
| "LangTypeBasic types_Int64 retInitVal errorInfo = (if retInitVal then ''GOint64.make(0,0)'' else ''GOint64'', [])"
| "LangTypeBasic types_Uint64 retInitVal errorInfo = (if retInitVal then ''GOint64.make(0,0)'' else ''GOint64'', [])"
| "LangTypeBasic types_UntypedInt retInitVal errorInfo =
     (''UNTYPED_INT'',
      [LogWarning errorInfo ''Haxe'' ''haxe.LangType() types.UntypedInt is ambiguous''])"
| "LangTypeBasic types_UnsafePointer retInitVal errorInfo =
     (if retInitVal then ''null'' else ''Pointer'',
      [LogWarning errorInfo ''Haxe'' ''Unsafe Pointer''])"
| "LangTypeBasic types_Uintptr retInitVal errorInfo = (if retInitVal then ''null'' else ''Dynamic'', [])"
| "LangTypeBasic k retInitVal errorInfo =
     (if retInitVal then ''null'' else ''Dynamic'',
      [LogWarning errorInfo ''Haxe'' ''haxe.LangType() unrecognised basic type, Dynamic assumed''])"

text \<open>
  The loop of the tuple case (lines 157 to 165), over the lowered element types:
  \<open>ele\<close> is the index of the next element, \<open>ret\<close> the text so far.
\<close>

fun tupleFields :: "extern \<Rightarrow> nat \<Rightarrow> string outcome list \<Rightarrow> string \<Rightarrow> string outcome" where
  "tupleFields x ele [] ret = Return (ret @ ''}'') []"
| "tupleFields x ele (r # rs) ret =
     andThen r (\<lambda>s.
       tupleFields x (Suc ele) rs
         ((if ele \<noteq> 0 then ret @ '','' else ret)
            @ MakeID x (''r'' @ Sprintf_d (int ele)) @ '':'' @ s))"

fun LangType :: "nat \<Rightarrow> extern \<Rightarrow> Type \<Rightarrow> bool \<Rightarrow> string \<Rightarrow> string outcome" where
  "LangType 0 x t retInitVal errorInfo = None"
| "LangType (Suc n) x t retInitVal errorInfo =
     (if IsValidInPogo x t errorInfo then
        (case t of
           Basic k \<Rightarrow> Some (Inr (LangTypeBasic k retInitVal errorInfo))
         | Interface \<Rightarrow> Return (if retInitVal then ''null'' else ''Interface'') []
         | Named h \<Rightarrow>
             (case getHaxeClass (TypeString x t) of
                Inl p \<Rightarrow> Panics p
              | Inr haxeName \<Rightarrow>
                  if haxeName \<noteq> [] then Return (if retInitVal then ''null'' else haxeName) []
                  else LangType n x (Underlying x t) retInitVal errorInfo)
         | Chan e \<Rightarrow>
             andThen (LangType n x e False errorInfo) (\<lambda>s.
               Return (if retInitVal then ''new Channel<'' @ s @ ''>(1)''
                       else ''Channel<'' @ s @ ''>'') [])
         | Map k e \<Rightarrow>
             if retInitVal then
               andThen (LangType n x k True errorInfo) (\<lambda>ks.
               andThen (LangType n x e True errorInfo) (\<lambda>es.
                 Return (''new GOmap('' @ ks @ '','' @ es @ '')'') []))
             else Return ''GOmap'' []
         | Slice e \<Rightarrow>
             Return (if retInitVal then
                       ''new Slice(new Pointer('' @ ''new Object(0)'' @ ''),0,0,0,'' @ ''1''
                         @ arrayOffsetCalc x (Underlying x e) @ '')''
                     else ''Slice'') []
         | Array e len \<Rightarrow>
             Return (if retInitVal then ''new Object('' @ Sprintf_d (Sizeof x t) @ '')''
                     else ''Object'') []
         | Struct fs \<Rightarrow>
             Return (if retInitVal then
                       ''new Object('' @ Sprintf_d (Sizeof x (Underlying x t)) @ '')''
                     else ''Object'') []
         | Tuple ts \<Rightarrow>
             (case ts of
                [] \<Rightarrow> Return [] []
              | [t0] \<Rightarrow> LangType n x (Underlying x t0) retInitVal errorInfo
              | _ \<Rightarrow>
                  tupleFields x 0
                    (map (\<lambda>te. LangType n x (Underlying x te) retInitVal errorInfo) ts) ''{'')
         | Pointer e \<Rightarrow> Return (if retInitVal then ''null'' else ''Pointer'') []
         | Signature \<Rightarrow> Return (if retInitVal then ''null'' else ''Closure'') []
         | OtherType rTyp \<Rightarrow>
             if rTyp = ''*ssa.opaqueType'' then
               Return (if retInitVal then ''null'' else ''Dynamic'') []
             else
               Return ''UNKNOWN_LANGTYPE''
                 [LogError errorInfo ''Haxe''
                    (''haxe.LangType() internal error, unhandled non-basic type: '' @ rTyp)])
      else Return ''UNKNOWN_LANGTYPE'' [])"

subsection \<open>Convert\<close>

text \<open>The type assertions of \<^verbatim>\<open>Convert\<close>: a failed one panics.\<close>

definition basicKindOf :: "extern \<Rightarrow> Type \<Rightarrow> panic + BasicKind" where
  "basicKindOf x t =
     (case Underlying x t of Basic k \<Rightarrow> Inr k | _ \<Rightarrow> Inl TypeAssertionFailed)"

definition sliceElemKindOf :: "extern \<Rightarrow> Type \<Rightarrow> panic + BasicKind" where
  "sliceElemKindOf x t =
     (case Underlying x t of Slice e \<Rightarrow> basicKindOf x e | _ \<Rightarrow> Inl TypeAssertionFailed)"

definition orPanic :: "panic + 'a \<Rightarrow> ('a \<Rightarrow> 'b outcome) \<Rightarrow> 'b outcome" where
  "orPanic m f = (case m of Inl p \<Rightarrow> Panics p | Inr a \<Rightarrow> f a)"

text \<open>The text that builds a string from the runes of the slice \<open>call\<close> returns.\<close>

definition runesToString :: "string \<Rightarrow> string \<Rightarrow> string" where
  "runesToString register call =
     ''{var _r:Slice='' @ call @ '';'' @
     register @ ''='' @ [dquote, dquote] @ '';for(_i in 0..._r.len())'' @
     register @ ''+=String.fromCharCode(_r.itemAddr(_i).load_int32('' @ ''));};''"

text \<open>
  The switch of \<^verbatim>\<open>Convert\<close> on the Haxe type of the destination (lines 199 to 316),
  given the Haxe type \<open>srcTyp\<close> of the source.
\<close>

definition ConvertSwitch ::
  "extern \<Rightarrow> string \<Rightarrow> string \<Rightarrow> string \<Rightarrow> Type \<Rightarrow> Value \<Rightarrow> string \<Rightarrow> string outcome" where
  "ConvertSwitch x srcTyp register langType destType v errorInfo =
    (let iv = IndirectValue x v errorInfo in
     if langType = ''Dynamic'' then
       Return (register @ ''='' @
                 (if srcTyp = ''GOint64'' then ''GOint64.toInt('' @ iv @ '')'' else iv) @ '';'') []
     else if langType = ''String'' then
       (if srcTyp = ''Slice'' then
          orPanic (sliceElemKindOf x (ValueType v)) (\<lambda>k.
            if k = types_Rune then
              Return (runesToString register
                (''Go_haxegoruntime_RRunes2RRaw.callFromRT(this._goroutine,'' @ iv @ '')'')) []
            else if k = types_Byte then
              Return (register @ ''=Force.toRawString(this._goroutine,'' @ iv @ '');'') []
            else
              Return []
                [LogError errorInfo ''Haxe''
                   ''haxe.Convert() - Unexpected slice type to convert to String''])
        else if srcTyp = ''Int'' then
          Return (runesToString register
            (''Go_haxegoruntime_RRune2RRaw.callFromRT(this._goroutine,'' @ iv @ '')'')) []
        else if srcTyp = ''GOint64'' then
          Return (runesToString register
            (''Go_haxegoruntime_RRune2RRaw.callFromRT(this._goroutine,GOint64.toInt('' @ iv @ ''))'')) []
        else if srcTyp = ''Dynamic'' then
          Return (register @ ''=cast('' @ iv @ '',String);'') []
        else
          Return []
            [LogError errorInfo ''Haxe''
               (''haxe.Convert() - Unexpected type to convert to String: '' @ srcTyp)])
     else if langType = ''Slice'' then
       (if srcTyp \<noteq> ''String'' then
          Return []
            [LogError errorInfo ''Haxe''
               (''haxe.Convert() - Unexpected type to convert to '' @ langType @
                '' ([]rune or []byte): '' @ srcTyp)]
        else
          orPanic (sliceElemKindOf x destType) (\<lambda>k.
            if k = types_Rune then
              Return (register @
                ''=Go_haxegoruntime_UUTTFF8toRRunes.callFromRT(this._goroutine,Force.toUTF8slice(this._goroutine,''
                @ iv @ ''));'') []
            else if k = types_Byte then
              Return (register @ ''=Force.toUTF8slice(this._goroutine,'' @ iv @ '');'') []
            else
              Return []
                [LogError errorInfo ''Haxe''
                   (''haxe.Convert() - Unexpected slice elementto convert to '' @ langType @
                    '' ([]rune/[]byte): '' @ srcTyp)]))
     else if langType = ''Int'' then
       (let vInt =
              (if srcTyp = ''GOint64'' then ''GOint64.toInt('' @ iv @ '')''
               else if srcTyp = ''Float'' then
                 ''{var _f:Float='' @ iv @ '';_f>=0?Math.floor(_f):Math.ceil(_f);}''
               else ''cast('' @ iv @ '','' @ langType @ '')'')
        in Return (register @ ''='' @ intTypeCoersion x destType vInt errorInfo @ '';'') [])
     else if langType = ''GOint64'' then
       (if srcTyp = ''Int'' then Return (register @ ''=GOint64.ofInt('' @ iv @ '');'') []
        else if srcTyp = ''Float'' then
          orPanic (basicKindOf x destType) (\<lambda>k.
            if IsUnsigned x k then Return (register @ ''=GOint64.ofUFloat('' @ iv @ '');'') []
            else Return (register @ ''=GOint64.ofFloat('' @ iv @ '');'') [])
        else if srcTyp = ''Dynamic'' then Return (register @ ''='' @ iv @ '';'') []
        else Return (register @ ''=cast('' @ iv @ '','' @ langType @ '');'') [])
     else if langType = ''Float'' then
       (if srcTyp = ''GOint64'' then
          orPanic (basicKindOf x (ValueType v)) (\<lambda>k.
            if IsUnsigned x k then Return (register @ ''=GOint64.toUFloat('' @ iv @ '');'') []
            else Return (register @ ''=GOint64.toFloat('' @ iv @ '');'') [])
        else if srcTyp = ''Int'' then
          orPanic (basicKindOf x (ValueType v)) (\<lambda>k.
            if IsUnsigned x k then
              Return (register @ ''=GOint64.toUFloat(GOint64.make(0,'' @ iv @ ''));'') []
            else Return (register @ ''='' @ iv @ '';'') [])
        else if srcTyp = ''Float'' then
          orPanic (basicKindOf x (ValueType v)) (\<lambda>k.
            if k = types_Float64 then
              orPanic (basicKindOf x destType) (\<lambda>kd.
                if kd = types_Float32 then
                  Return (register @ ''=Force.toFloat32('' @ iv @ '');'') []
                else Return (register @ ''='' @ iv @ '';'') [])
            else Return (register @ ''='' @ iv @ '';'') [])
        else Return (register @ ''=cast('' @ iv @ '','' @ langType @ '');'') [])
     else if langType = ''UnsafePointer'' then
       Return (register @ ''='' @ iv @ '';'')
         [LogWarning errorInfo ''Haxe'' ''converting a pointer to an Unsafe Pointer'']
     else
       (if HasPrefix srcTyp ''Array<'' then
          Return []
            [LogError errorInfo ''Haxe''
               (''haxe.Convert() - No way to convert to '' @ langType @ '' from '' @ srcTyp @ '' '')]
        else Return (register @ ''=cast('' @ iv @ '','' @ langType @ '');'') []))"

definition Convert ::
  "nat \<Rightarrow> extern \<Rightarrow> string \<Rightarrow> string \<Rightarrow> Type \<Rightarrow> Value \<Rightarrow> string \<Rightarrow> string outcome" where
  "Convert n x register langType destType v errorInfo =
     andThen (LangType n x (Underlying x (ValueType v)) False errorInfo) (\<lambda>srcTyp.
       if srcTyp = langType \<and> langType \<noteq> ''Float'' then
         Return (register @ ''='' @ IndirectValue x v errorInfo @ '';'') []
       else ConvertSwitch x srcTyp register langType destType v errorInfo)"

subsection \<open>ChangeType and TypeAssert\<close>

definition ChangeType ::
  "nat \<Rightarrow> extern \<Rightarrow> string \<Rightarrow> Type \<Rightarrow> Value \<Rightarrow> string \<Rightarrow> string outcome" where
  "ChangeType n x register regTyp v errorInfo =
     (case v of
        ssa_Function rx pkg nm \<Rightarrow>
          (let pf = (case rx of
                       Some rt \<Rightarrow> TypeString x rt
                     | None \<Rightarrow> (case pkg of Some pn \<Rightarrow> pn | None \<Rightarrow> []))
           in Return (register @ ''='' @ ''new Closure(Go_'' @ LangName x pf nm @ ''.call,[]);'') [])
      | ssa_Value i vt \<Rightarrow>
          orPanic (getHaxeClass (TypeString x regTyp)) (\<lambda>hType.
            if hType \<noteq> [] then
              (case Underlying x (ValueType v) of
                 Interface \<Rightarrow> Return (register @ ''='' @ IndirectValue x v errorInfo @ ''.val;'') []
               | _ \<Rightarrow> Return (register @ ''=cast '' @ IndirectValue x v errorInfo @ '';'') [])
            else
              (case Underlying x (ValueType v) of
                 Basic k \<Rightarrow>
                   if k = types_UnsafePointer then
                     andThen (LangType n x regTyp True errorInfo) (\<lambda>z.
                       Return (register @ ''='' @ z @ '';'') [])
                   else Return (register @ ''='' @ IndirectValue x v errorInfo @ '';'') []
               | _ \<Rightarrow> Return (register @ ''='' @ IndirectValue x v errorInfo @ '';'') [])))"

definition TypeAssert ::
  "extern \<Rightarrow> string \<Rightarrow> Value \<Rightarrow> Type \<Rightarrow> bool \<Rightarrow> string \<Rightarrow> string" where
  "TypeAssert x register v AssertedType CommaOk errorInfo =
     (if register = [] then []
      else if CommaOk then
        register @ ''=Interface.assertOk('' @ LogTypeUse x AssertedType @ '','' @
          IndirectValue x v errorInfo @ '');''
      else
        register @ ''=Interface.assert('' @ LogTypeUse x AssertedType @ '','' @
          IndirectValue x v errorInfo @ '');'')"

subsection \<open>EmitTypeInfo: the table of type names\<close>




text \<open>
  \<^verbatim>\<open>pogo.TypesEncountered\<close> is a map from types to their IDs.  It is modelled by its
  entries, in the order of \<^verbatim>\<open>pteKeys\<close>: each key with the ID \<^verbatim>\<open>pte.At\<close> gives for it.
\<close>

type_synonym TypesEncountered = "(Type \<times> int) list"






subsection \<open>EmitTypeInfo: the tables of assignability and identity\<close>

text \<open>
  Lines 613 to 625 and 628 to 640 differ in the name of the emitted function and in the
  relation of \<^verbatim>\<open>go/types\<close> they ask.  \<open>relationInner\<close> is the inner loop, for the type
  \<open>V\<close> of ID \<open>v\<close>; \<open>relationOuter\<close> is the outer loop.
\<close>

definition relationInner ::
  "(Type \<Rightarrow> Type \<Rightarrow> bool) \<Rightarrow> TypesEncountered \<Rightarrow> Type \<Rightarrow> int \<Rightarrow> string" where
  "relationInner rel pte V v =
     concat (map (\<lambda>(T, t).
       if v \<noteq> t \<and> rel V T then ''case '' @ Sprintf_d t @ '': return true;'' @ [newline]
       else []) pte)"

definition relationOuter :: "(Type \<Rightarrow> Type \<Rightarrow> bool) \<Rightarrow> TypesEncountered \<Rightarrow> string" where
  "relationOuter rel pte =
     concat (map (\<lambda>(V, v).
       ''case '' @ Sprintf_d v @ '': switch(t){'' @ [newline] @
       relationInner rel pte V v @
       ''default: return false;}'' @ [newline]) pte)"

definition relationFunction ::
  "string \<Rightarrow> (Type \<Rightarrow> Type \<Rightarrow> bool) \<Rightarrow> TypesEncountered \<Rightarrow> string" where
  "relationFunction name rel pte =
     ''public static function '' @ name @ ''(v:Int,t:Int):Bool {'' @ [newline] @
     ''if(v==t) return true;'' @ [newline] @ ''switch(v){'' @ [newline] @
     relationOuter rel pte @
     ''default: return false;}}'' @ [newline]"

definition EmitTypeInfo_isAssignableTo :: "extern \<Rightarrow> TypesEncountered \<Rightarrow> string" where
  "EmitTypeInfo_isAssignableTo x pte = relationFunction ''isAssignableTo'' (AssignableTo x) pte"

definition EmitTypeInfo_isIdentical :: "extern \<Rightarrow> TypesEncountered \<Rightarrow> string" where
  "EmitTypeInfo_isIdentical x pte = relationFunction ''isIdentical'' (Identical x) pte"

text \<open>
  The emitted function is a Haxe function of two \<open>Int\<close> arguments: a test of \<open>v == t\<close>,
  then a switch on \<open>v\<close> whose cases are switches on \<open>t\<close>.  \<open>switchTable\<close> is that text
  as a table: for each case of the outer switch, in order, the cases of its inner switch
  that return true.  \<open>renderSwitch\<close> writes a table as Haxe text, and \<open>runSwitch\<close> is
  what the Haxe function returns: the first case that matches is taken, and both
  defaults return false.
\<close>

type_synonym switchTable = "(int \<times> int list) list"

definition relationTable :: "(Type \<Rightarrow> Type \<Rightarrow> bool) \<Rightarrow> TypesEncountered \<Rightarrow> switchTable" where
  "relationTable rel pte =
     map (\<lambda>(V, v). (v, map snd (filter (\<lambda>(T, t). v \<noteq> t \<and> rel V T) pte))) pte"

definition renderSwitch :: "string \<Rightarrow> switchTable \<Rightarrow> string" where
  "renderSwitch name tbl =
     ''public static function '' @ name @ ''(v:Int,t:Int):Bool {'' @ [newline] @
     ''if(v==t) return true;'' @ [newline] @ ''switch(v){'' @ [newline] @
     concat (map (\<lambda>(v, ts).
       ''case '' @ Sprintf_d v @ '': switch(t){'' @ [newline] @
       concat (map (\<lambda>t. ''case '' @ Sprintf_d t @ '': return true;'' @ [newline]) ts) @
       ''default: return false;}'' @ [newline]) tbl) @
     ''default: return false;}}'' @ [newline]"

definition runSwitch :: "switchTable \<Rightarrow> int \<Rightarrow> int \<Rightarrow> bool" where
  "runSwitch tbl v t =
     (if v = t then True
      else (case find (\<lambda>(c, ts). c = v) tbl of
              None \<Rightarrow> False
            | Some (c, ts) \<Rightarrow> (case find (\<lambda>c'. c' = t) ts of None \<Rightarrow> False | Some _ \<Rightarrow> True)))"

definition isAssignableTo :: "extern \<Rightarrow> TypesEncountered \<Rightarrow> int \<Rightarrow> int \<Rightarrow> bool" where
  "isAssignableTo x pte v t = runSwitch (relationTable (AssignableTo x) pte) v t"

definition isIdentical :: "extern \<Rightarrow> TypesEncountered \<Rightarrow> int \<Rightarrow> int \<Rightarrow> bool" where
  "isIdentical x pte v t = runSwitch (relationTable (Identical x) pte) v t"

subsection \<open>The failure policy\<close>

text \<open>
  The two texts of which the source says that they make the Haxe compiler fail:
  \<^verbatim>\<open>"UNTYPED_INT"\<close> (line 55: if this value were ever to be used, it would cause a Haxe
  compilation error) and \<^verbatim>\<open>"UNKNOWN_LANGTYPE"\<close> (line 191: this should generate a Haxe
  compiler error).
\<close>

definition haxeCompilerErrorText :: "string \<Rightarrow> bool" where
  "haxeCompilerErrorText s = (s = ''UNTYPED_INT'' \<or> s = ''UNKNOWN_LANGTYPE'')"

fun isWarning :: "LogEntry \<Rightarrow> bool" where
  "isWarning (LogWarning pos lang msg) = True"
| "isWarning (LogError pos lang msg) = False"

fun isError :: "LogEntry \<Rightarrow> bool" where
  "isError (LogWarning pos lang msg) = False"
| "isError (LogError pos lang msg) = True"

subsection \<open>A small program to run the definitions on\<close>

text \<open>
  Two named types: \<^verbatim>\<open>type T struct { next *T }\<close> in package \<^verbatim>\<open>main\<close>, which refers to
  itself, and \<^verbatim>\<open>type M map[string]M\<close>.  The other parameters are simple stand-ins.
\<close>

fun sampleString :: "Type \<Rightarrow> string" where
  "sampleString (Named h) = (if h = 0 then ''main.T'' else ''main.M'')"
| "sampleString (Basic k) = ''basic''"
| "sampleString (Pointer t) = ''*'' @ sampleString t"
| "sampleString (Slice t) = ''[]'' @ sampleString t"
| "sampleString t = ''type''"

definition sampleExtern :: extern where
  "sampleExtern =
     \<lparr> TypeString = sampleString,
       NamedUnderlying = (\<lambda>h. if h = 0 then Struct [Pointer (Named 0)]
                               else Map (Basic types_String) (Named h)),
       IsUnsigned = (\<lambda>k. k \<in> {types_Uint, types_Uint8, types_Uint16, types_Uint32,
                                types_Uint64, types_Uintptr}),
       Identical = (\<lambda>a b. a = b),
       AssignableTo = (\<lambda>a b. a = b \<or> b = Interface),
       IsValidInPogo = (\<lambda>t pos. True),
       LogTypeUse = (\<lambda>t. ''7''),
       MakeID = (\<lambda>s. s),
       IndirectValue = (\<lambda>v pos. ''_v''),
       intTypeCoersion = (\<lambda>t s pos. ''Force.toInt('' @ s @ '')''),
       haxeStringConst = (\<lambda>s pos. [dquote] @ butlast (tl s) @ [dquote]),
       arrayOffsetCalc = (\<lambda>t. ''*4''),
       Sizeof = (\<lambda>t. 4),
       LangName = (\<lambda>p n. p @ ''_'' @ n) \<rparr>"

section \<open>Properties\<close>

subsection \<open>LangType\<close>



text \<open>
  Claim C2.  The zero value of a pointer type is \<open>null\<close>, and \<open>LangType\<close> finds it with
  one unit of fuel, that is, without a recursive call: whatever the pointer points to,
  and whatever the named types are declared as, also when a declaration refers to
  itself.
\<close>

theorem C2_pointer_zero_value:
  "IsValidInPogo x (Pointer e) errorInfo \<Longrightarrow>
   LangType (Suc n) x (Pointer e) True errorInfo = Return ''null'' []"
  by simp

text \<open>The witness is the pointer to \<^verbatim>\<open>type T struct { next *T }\<close>.\<close>

theorem C2_pointer_zero_value_witness:
  "IsValidInPogo sampleExtern (Pointer (Named 0)) ''pos'' \<and>
   Underlying sampleExtern (Named 0) = Struct [Pointer (Named 0)] \<and>
   LangType (Suc 0) sampleExtern (Pointer (Named 0)) True ''pos'' = Return ''null'' []"
proof -
  have v: "IsValidInPogo sampleExtern (Pointer (Named 0)) ''pos''"
    by (simp add: sampleExtern_def)
  have u: "Underlying sampleExtern (Named 0) = Struct [Pointer (Named 0)]"
    by (simp add: sampleExtern_def Underlying_def)
  from v u C2_pointer_zero_value [OF v, of 0] show ?thesis by simp
qed

text \<open>
  The zero value of the self-referencing struct itself is found with two units of fuel.
  The fuel is not idle: for \<^verbatim>\<open>type M map[string]M\<close> the zero value of the map asks for
  the zero value of its element type, and no amount of fuel suffices.
\<close>

lemma self_referencing_struct_zero_value:
  "LangType 2 sampleExtern (Named 0) True ''pos'' = Return ''new Object(4)'' []"
  by (simp add: numeral_2_eq_2 sampleExtern_def getHaxeClass_def Underlying_def Return_def
      Sprintf_d_def digits10.simps)

lemma cyclic_map_zero_value_diverges:
  "LangType n sampleExtern (Named (Suc 0)) True pos = None \<and>
   LangType n sampleExtern (Map (Basic types_String) (Named (Suc 0))) True pos = None"
proof (induction n)
  case 0
  show ?case by simp
next
  case (Suc n)
  have a: "LangType (Suc n) sampleExtern (Map (Basic types_String) (Named (Suc 0))) True pos = None"
  proof (cases n)
    case 0
    then show ?thesis by (simp add: sampleExtern_def andThen_def)
  next
    case (Suc m)
    with Suc.IH show ?thesis
      by (simp add: sampleExtern_def andThen_def Return_def split: option.splits sum.splits)
  qed
  have b: "LangType (Suc n) sampleExtern (Named (Suc 0)) True pos = None"
    using Suc.IH by (simp add: sampleExtern_def getHaxeClass_def Underlying_def)
  from a b show ?case by simp
qed

text \<open>
  Claim C6, as the code has it.  The basic-type cases of \<open>LangType\<close> log warnings only.
  A case that logs a warning returns a fallback (\<open>null\<close>, \<open>Pointer\<close> or \<open>Dynamic\<close>), with
  one exception: the untyped integer, whose warning comes with the text \<open>UNTYPED_INT\<close>,
  one of the two texts the source marks as failing the Haxe compiler.  The one case that
  logs an error, a type that is no known variant, returns the other one,
  \<open>UNKNOWN_LANGTYPE\<close>.
\<close>

theorem C6_failure_policy:
  "(IsValidInPogo x (Basic k) errorInfo \<longrightarrow>
      LangType (Suc n) x (Basic k) retInitVal errorInfo =
        Return (fst (LangTypeBasic k retInitVal errorInfo)) (snd (LangTypeBasic k retInitVal errorInfo)) \<and>
      list_all isWarning (snd (LangTypeBasic k retInitVal errorInfo)) \<and>
      (snd (LangTypeBasic k retInitVal errorInfo) \<noteq> [] \<longrightarrow>
         (if k = types_UntypedInt then fst (LangTypeBasic k retInitVal errorInfo) = ''UNTYPED_INT''
          else fst (LangTypeBasic k retInitVal errorInfo) \<in> {''null'', ''Pointer'', ''Dynamic''} \<and>
               \<not> haxeCompilerErrorText (fst (LangTypeBasic k retInitVal errorInfo))))) \<and>
   (IsValidInPogo x (OtherType rTyp) errorInfo \<and> rTyp \<noteq> ''*ssa.opaqueType'' \<longrightarrow>
      LangType (Suc n) x (OtherType rTyp) retInitVal errorInfo =
        Return ''UNKNOWN_LANGTYPE''
          [LogError errorInfo ''Haxe''
             (''haxe.LangType() internal error, unhandled non-basic type: '' @ rTyp)] \<and>
      haxeCompilerErrorText ''UNKNOWN_LANGTYPE'')"
  by (cases k) (simp_all add: Return_def haxeCompilerErrorText_def)

theorem C6_failure_policy_witness:
  "LangType 1 sampleExtern (Basic types_UnsafePointer) False ''pos'' =
     Return ''Pointer'' [LogWarning ''pos'' ''Haxe'' ''Unsafe Pointer''] \<and>
   LangType 1 sampleExtern (Basic types_Invalid) True ''pos'' =
     Return ''null'' [LogWarning ''pos'' ''Haxe'' ''haxe.LangType() unrecognised basic type, Dynamic assumed''] \<and>
   LangType 1 sampleExtern (OtherType ''*foo.Bar'') False ''pos'' =
     Return ''UNKNOWN_LANGTYPE''
       [LogError ''pos'' ''Haxe'' ''haxe.LangType() internal error, unhandled non-basic type: *foo.Bar'']"
proof -
  have v: "IsValidInPogo sampleExtern t ''pos''" for t
    by (simp add: sampleExtern_def)
  show ?thesis
    using C6_failure_policy [where x = sampleExtern and k = types_UnsafePointer and errorInfo = "''pos''"
            and n = 0 and retInitVal = False and rTyp = "''*foo.Bar''"]
          C6_failure_policy [where x = sampleExtern and k = types_Invalid and errorInfo = "''pos''"
            and n = 0 and retInitVal = True and rTyp = "''*foo.Bar''"]
          v
    by simp
qed

text \<open>
  The claim as written says that no warning comes with a text that fails the Haxe
  compiler.  The untyped integer is such a case.
\<close>

theorem C6_failure_policy_counterexample:
  "LangType 1 sampleExtern (Basic types_UntypedInt) False ''pos'' =
     Return ''UNTYPED_INT''
       [LogWarning ''pos'' ''Haxe'' ''haxe.LangType() types.UntypedInt is ambiguous''] \<and>
   isWarning (LogWarning ''pos'' ''Haxe'' ''haxe.LangType() types.UntypedInt is ambiguous'') \<and>
   haxeCompilerErrorText ''UNTYPED_INT''"
  by (simp add: sampleExtern_def Return_def haxeCompilerErrorText_def)

subsection \<open>Convert\<close>

text \<open>
  Claim C3.  When the Haxe type of the source is the Haxe type of the destination and
  that type is not \<open>Float\<close>, \<open>Convert\<close> returns the plain assignment and logs nothing of
  its own.  When both are \<open>Float\<close> (and both types are basic), the assignment goes
  through \<open>Force.toFloat32\<close> exactly when the source is a \<open>float64\<close> and the destination
  a \<open>float32\<close>, and is plain otherwise.
\<close>

theorem C3_Convert_same_type:
  assumes "LangType n x (Underlying x (ValueType v)) False errorInfo = Return langType lg"
  shows "(langType \<noteq> ''Float'' \<longrightarrow>
            Convert n x register langType destType v errorInfo =
              Return (register @ ''='' @ IndirectValue x v errorInfo @ '';'') lg) \<and>
         (langType = ''Float'' \<longrightarrow> basicKindOf x (ValueType v) = Inr ks \<longrightarrow>
          basicKindOf x destType = Inr kd \<longrightarrow>
            Convert n x register langType destType v errorInfo =
              Return (if ks = types_Float64 \<and> kd = types_Float32
                      then register @ ''=Force.toFloat32('' @ IndirectValue x v errorInfo @ '');''
                      else register @ ''='' @ IndirectValue x v errorInfo @ '';'') lg)"
  using assms
  by (auto simp add: Convert_def ConvertSwitch_def orPanic_def Return_def andThen_def Let_def)

theorem C3_Convert_same_type_witness:
  "Convert 1 sampleExtern ''_r'' ''String'' (Basic types_String)
      (ssa_Value 0 (Basic types_UntypedString)) ''pos'' = Return ''_r=_v;'' [] \<and>
   Convert 1 sampleExtern ''_r'' ''Float'' (Basic types_Float32)
      (ssa_Value 0 (Basic types_Float64)) ''pos'' = Return ''_r=Force.toFloat32(_v);'' [] \<and>
   Convert 1 sampleExtern ''_r'' ''Float'' (Basic types_Float64)
      (ssa_Value 0 (Basic types_Float32)) ''pos'' = Return ''_r=_v;'' []"
proof -
  have s: "LangType 1 sampleExtern (Underlying sampleExtern (ValueType (ssa_Value 0 (Basic types_UntypedString))))
             False ''pos'' = Return ''String'' []"
    by (simp add: sampleExtern_def Underlying_def Return_def)
  have f: "LangType 1 sampleExtern (Underlying sampleExtern (ValueType (ssa_Value 0 (Basic types_Float64))))
             False ''pos'' = Return ''Float'' []"
    by (simp add: sampleExtern_def Underlying_def Return_def)
  have g: "LangType 1 sampleExtern (Underlying sampleExtern (ValueType (ssa_Value 0 (Basic types_Float32))))
             False ''pos'' = Return ''Float'' []"
    by (simp add: sampleExtern_def Underlying_def Return_def)
  have b: "basicKindOf sampleExtern (Basic k) = Inr k" for k
    by (simp add: basicKindOf_def Underlying_def)
  show ?thesis
    using C3_Convert_same_type [OF s, where register = "''_r''" and destType = "Basic types_String"]
          C3_Convert_same_type [OF f, where ks = types_Float64
            and kd = types_Float32 and register = "''_r''" and destType = "Basic types_Float32"]
          C3_Convert_same_type [OF g, where ks = types_Float32
            and kd = types_Float64 and register = "''_r''" and destType = "Basic types_Float64"]
          b
    by (simp add: sampleExtern_def)
qed




text \<open>
  Claim C5, as the code has it.  When the Haxe type of the destination is \<open>Slice\<close>: a
  source whose Haxe type is neither \<open>String\<close> nor \<open>Slice\<close> makes \<open>Convert\<close> log an
  error and return the empty text; a \<open>String\<close> source is converted by
  \<open>UUTTFF8toRRunes\<close> of \<open>Force.toUTF8slice\<close> for a slice of runes and by
  \<open>Force.toUTF8slice\<close> for a slice of bytes.
\<close>

theorem C5_Convert_to_Slice:
  assumes "LangType n x (Underlying x (ValueType v)) False errorInfo = Return srcTyp lg"
  shows "(srcTyp \<noteq> ''String'' \<and> srcTyp \<noteq> ''Slice'' \<longrightarrow>
            Convert n x register ''Slice'' destType v errorInfo =
              Return []
                (lg @ [LogError errorInfo ''Haxe''
                   (''haxe.Convert() - Unexpected type to convert to Slice ([]rune or []byte): '' @ srcTyp)])) \<and>
         (srcTyp = ''String'' \<and> sliceElemKindOf x destType = Inr types_Rune \<longrightarrow>
            Convert n x register ''Slice'' destType v errorInfo =
              Return (register @
                ''=Go_haxegoruntime_UUTTFF8toRRunes.callFromRT(this._goroutine,Force.toUTF8slice(this._goroutine,''
                @ IndirectValue x v errorInfo @ ''));'') lg) \<and>
         (srcTyp = ''String'' \<and> sliceElemKindOf x destType = Inr types_Byte \<longrightarrow>
            Convert n x register ''Slice'' destType v errorInfo =
              Return (register @ ''=Force.toUTF8slice(this._goroutine,'' @
                IndirectValue x v errorInfo @ '');'') lg)"
  using assms
  by (simp add: Convert_def ConvertSwitch_def orPanic_def Return_def andThen_def)

theorem C5_Convert_to_Slice_witness:
  "Convert 1 sampleExtern ''_r'' ''Slice'' (Slice (Basic types_Uint8)) (ssa_Value 0 (Basic types_Int)) ''pos''
     = Return [] [LogError ''pos'' ''Haxe''
         ''haxe.Convert() - Unexpected type to convert to Slice ([]rune or []byte): Int''] \<and>
   Convert 1 sampleExtern ''_r'' ''Slice'' (Slice (Basic types_Int32)) (ssa_Value 0 (Basic types_String)) ''pos''
     = Return ''_r=Go_haxegoruntime_UUTTFF8toRRunes.callFromRT(this._goroutine,Force.toUTF8slice(this._goroutine,_v));'' [] \<and>
   Convert 1 sampleExtern ''_r'' ''Slice'' (Slice (Basic types_Uint8)) (ssa_Value 0 (Basic types_String)) ''pos''
     = Return ''_r=Force.toUTF8slice(this._goroutine,_v);'' []"
proof -
  have i: "LangType 1 sampleExtern (Underlying sampleExtern (ValueType (ssa_Value 0 (Basic types_Int))))
             False ''pos'' = Return ''Int'' []"
    by (simp add: sampleExtern_def Underlying_def Return_def)
  have s: "LangType 1 sampleExtern (Underlying sampleExtern (ValueType (ssa_Value 0 (Basic types_String))))
             False ''pos'' = Return ''String'' []"
    by (simp add: sampleExtern_def Underlying_def Return_def)
  have k: "sliceElemKindOf sampleExtern (Slice (Basic k)) = Inr k" for k
    by (simp add: sliceElemKindOf_def basicKindOf_def Underlying_def)
  show ?thesis
    using C5_Convert_to_Slice [OF i, where register = "''_r''" and destType = "Slice (Basic types_Uint8)"]
          C5_Convert_to_Slice [OF s, where register = "''_r''" and destType = "Slice (Basic types_Int32)"]
          C5_Convert_to_Slice [OF s, where register = "''_r''" and destType = "Slice (Basic types_Uint8)"]
          k
    by (simp add: sampleExtern_def)
qed

text \<open>
  The claim as written asks for the error whenever the source is not a \<open>String\<close>.  A
  source that is a slice itself is assigned by the test of line 196, with no error.
\<close>

theorem C5_Convert_to_Slice_counterexample:
  "LangType 1 sampleExtern (Underlying sampleExtern (ValueType (ssa_Value 0 (Slice (Basic types_Uint8)))))
     False ''pos'' = Return ''Slice'' [] \<and>
   ''Slice'' \<noteq> ''String'' \<and>
   Convert 1 sampleExtern ''_r'' ''Slice'' (Slice (Basic types_Uint8))
     (ssa_Value 0 (Slice (Basic types_Uint8))) ''pos'' = Return ''_r=_v;'' []"
  by (simp add: Convert_def sampleExtern_def Underlying_def Return_def andThen_def)

subsection \<open>ChangeType\<close>

text \<open>
  Claim C9.  When the value is of an unsafe-pointer type and the destination type is
  not mapped to a Haxe class (\<open>getHaxeClass\<close> gives the empty name for it),
  \<open>ChangeType\<close> assigns the register the zero value \<open>LangType\<close> gives for the
  destination type; the value itself does not occur in the assignment.
\<close>

theorem C9_ChangeType_unsafe_pointer:
  assumes "Underlying x (ValueType v) = Basic types_UnsafePointer"
      and "getHaxeClass (TypeString x regTyp) = Inr []"
      and "LangType n x regTyp True errorInfo = Return z lg"
  shows "ChangeType n x register regTyp v errorInfo = Return (register @ ''='' @ z @ '';'') lg"
proof (cases v)
  case (ssa_Function rx pkg nm)
  with assms(1) show ?thesis by (simp add: Underlying_def)
next
  case (ssa_Value i vt)
  with assms show ?thesis
    by (simp add: ChangeType_def orPanic_def Return_def andThen_def)
qed

theorem C9_ChangeType_unsafe_pointer_witness:
  "ChangeType 2 sampleExtern ''_r'' (Named 0) (ssa_Value 0 (Basic types_UnsafePointer)) ''pos''
     = Return ''_r=new Object(4);'' [] \<and>
   IndirectValue sampleExtern (ssa_Value 0 (Basic types_UnsafePointer)) ''pos'' = ''_v''"
proof -
  have u: "Underlying sampleExtern (ValueType (ssa_Value 0 (Basic types_UnsafePointer)))
             = Basic types_UnsafePointer"
    by (simp add: Underlying_def)
  have h: "getHaxeClass (TypeString sampleExtern (Named 0)) = Inr []"
    by (simp add: sampleExtern_def getHaxeClass_def)
  have z: "LangType 2 sampleExtern (Named 0) True ''pos'' = Return ''new Object(4)'' []"
    by (simp add: numeral_2_eq_2 sampleExtern_def getHaxeClass_def Underlying_def Return_def
        Sprintf_d_def digits10.simps)
  show ?thesis
    using C9_ChangeType_unsafe_pointer [OF u h z, where register = "''_r''"]
    by (simp add: sampleExtern_def)
qed

subsection \<open>EmitTypeInfo: the table of type names\<close>








subsection \<open>EmitTypeInfo: the tables of assignability and identity\<close>

text \<open>
  The text of an emitted function is the rendering of its table, and what the function
  returns is read off the registry.
\<close>

lemma concat_map_if_filter:
  "concat (map (\<lambda>(T, t). if P T t then f t else []) xs) =
   concat (map f (map snd (filter (\<lambda>(T, t). P T t) xs)))"
  by (induction xs) (auto split: prod.splits)

lemma relationInner_filter:
  "relationInner rel pte V v =
     concat (map (\<lambda>t. ''case '' @ Sprintf_d t @ '': return true;'' @ [newline])
       (map snd (filter (\<lambda>(T, t). v \<noteq> t \<and> rel V T) pte)))"
  unfolding relationInner_def
  by (rule concat_map_if_filter [where P = "\<lambda>T t. v \<noteq> t \<and> rel V T"])

lemma relationFunction_renderSwitch:
  "relationFunction name rel pte = renderSwitch name (relationTable rel pte)"
proof -
  have "relationOuter rel pte =
        concat (map (\<lambda>(v, ts).
          ''case '' @ Sprintf_d v @ '': switch(t){'' @ [newline] @
          concat (map (\<lambda>t. ''case '' @ Sprintf_d t @ '': return true;'' @ [newline]) ts) @
          ''default: return false;}'' @ [newline]) (relationTable rel pte))"
    unfolding relationOuter_def relationTable_def
    by (simp add: relationInner_filter comp_def case_prod_unfold)
  then show ?thesis
    by (simp add: relationFunction_def renderSwitch_def)
qed

lemma find_relationTable:
  "find (\<lambda>(c, ts). c = a) (relationTable rel pte) =
     map_option (\<lambda>(V, v). (v, map snd (filter (\<lambda>(T, t). v \<noteq> t \<and> rel V T) pte)))
       (find (\<lambda>(V, v). v = a) pte)"
proof -
  have "find (\<lambda>(c, ts). c = a) (map (\<lambda>(V, v). (v, f V v)) xs) =
        map_option (\<lambda>(V, v). (v, f V v)) (find (\<lambda>(V, v). v = a) xs)" for f :: "Type \<Rightarrow> int \<Rightarrow> int list" and xs
    by (induction xs) auto
  then show ?thesis unfolding relationTable_def .
qed

lemma runSwitch_relationTable:
  "runSwitch (relationTable rel pte) a b =
     (a = b \<or> (case find (\<lambda>(V, v). v = a) pte of
                  None \<Rightarrow> False
                | Some (V, v) \<Rightarrow> (\<exists>T. (T, b) \<in> set pte \<and> rel V T)))"
proof -
  have m: "(find (\<lambda>c'. c' = t) ts \<noteq> None) = (t \<in> set ts)" for t :: int and ts
    by (induction ts) auto
  show ?thesis
  proof (cases "a = b")
    case True
    then show ?thesis by (simp add: runSwitch_def)
  next
    case False
    show ?thesis
    proof (cases "find (\<lambda>(V, v). v = a) pte")
      case None
      with False show ?thesis by (simp add: runSwitch_def find_relationTable)
    next
      case (Some e)
      obtain V v where e: "e = (V, v)" by (cases e)
      from Some e have va: "v = a" by (auto simp add: find_Some_iff)
      have "runSwitch (relationTable rel pte) a b =
            (find (\<lambda>c'. c' = b) (map snd (filter (\<lambda>(T, t). v \<noteq> t \<and> rel V T) pte)) \<noteq> None)"
        using False Some e by (simp add: runSwitch_def find_relationTable split: option.splits)
      also have "\<dots> = (b \<in> set (map snd (filter (\<lambda>(T, t). v \<noteq> t \<and> rel V T) pte)))"
        by (rule m)
      also have "\<dots> = (\<exists>T. (T, b) \<in> set pte \<and> rel V T)"
        using False va by force
      finally show ?thesis using False Some e by simp
    qed
  qed
qed

text \<open>
  Claim C8.  The two emitted functions are the renderings of the tables of
  \<^verbatim>\<open>types.Identical\<close> and \<^verbatim>\<open>types.AssignableTo\<close> over the registry.  Both return true
  when the two IDs are equal.  When identical registered types are assignable in
  \<^verbatim>\<open>go/types\<close> (the first rule of assignability of the Go specification; the relation
  is a parameter here), \<open>isIdentical\<close> returning true implies that \<open>isAssignableTo\<close>
  returns true, for any two IDs.
\<close>

theorem C8_identical_implies_assignable:
  "EmitTypeInfo_isIdentical x pte = renderSwitch ''isIdentical'' (relationTable (Identical x) pte) \<and>
   EmitTypeInfo_isAssignableTo x pte =
     renderSwitch ''isAssignableTo'' (relationTable (AssignableTo x) pte) \<and>
   isIdentical x pte a a \<and> isAssignableTo x pte a a \<and>
   ((\<forall>(V, v) \<in> set pte. \<forall>(T, t) \<in> set pte. Identical x V T \<longrightarrow> AssignableTo x V T) \<longrightarrow>
    isIdentical x pte a b \<longrightarrow> isAssignableTo x pte a b)"
proof -
  have emitted: "EmitTypeInfo_isIdentical x pte = renderSwitch ''isIdentical'' (relationTable (Identical x) pte)"
            "EmitTypeInfo_isAssignableTo x pte =
               renderSwitch ''isAssignableTo'' (relationTable (AssignableTo x) pte)"
    by (simp_all add: EmitTypeInfo_isIdentical_def EmitTypeInfo_isAssignableTo_def
        relationFunction_renderSwitch)
  have same: "isIdentical x pte a a" "isAssignableTo x pte a a"
    by (simp_all add: isIdentical_def isAssignableTo_def runSwitch_def)
  have imp: "isAssignableTo x pte a b"
    if sub: "\<forall>(V, v) \<in> set pte. \<forall>(T, t) \<in> set pte. Identical x V T \<longrightarrow> AssignableTo x V T"
      and ident: "isIdentical x pte a b"
  proof (cases "a = b")
    case True
    then show ?thesis by (simp add: isAssignableTo_def runSwitch_def)
  next
    case False
    from ident False obtain V v T where
      f: "find (\<lambda>(V, v). v = a) pte = Some (V, v)" and T: "(T, b) \<in> set pte" and i: "Identical x V T"
      by (auto simp add: isIdentical_def runSwitch_relationTable split: option.splits)
    from f have "(V, v) \<in> set pte"
      by (metis find_Some_iff nth_mem)
    with sub T i have "AssignableTo x V T" by blast
    with f T show ?thesis
      by (auto simp add: isAssignableTo_def runSwitch_relationTable)
  qed
  from emitted same imp show ?thesis by blast
qed


theorem C8_identical_implies_assignable_witness:
  "EmitTypeInfo_isIdentical sampleExtern [(Named 0, 1), (Interface, 2)] =
     renderSwitch ''isIdentical'' [(1, []), (2, [])] \<and>
   EmitTypeInfo_isAssignableTo sampleExtern [(Named 0, 1), (Interface, 2)] =
     renderSwitch ''isAssignableTo'' [(1, [2]), (2, [])] \<and>
   isIdentical sampleExtern [(Named 0, 1), (Interface, 2)] 1 1 \<and>
   isAssignableTo sampleExtern [(Named 0, 1), (Interface, 2)] 1 1 \<and>
   isAssignableTo sampleExtern [(Named 0, 1), (Interface, 2)] 1 2 \<and>
   \<not> isIdentical sampleExtern [(Named 0, 1), (Interface, 2)] 1 2"
proof -
  have sub: "\<forall>(V, v) \<in> set [(Named 0, 1::int), (Interface, 2)].
             \<forall>(T, t) \<in> set [(Named 0, 1::int), (Interface, 2)].
               Identical sampleExtern V T \<longrightarrow> AssignableTo sampleExtern V T"
    by (simp add: sampleExtern_def)
  have tbl: "relationTable (Identical sampleExtern) [(Named 0, 1), (Interface, 2)] = [(1, []), (2, [])]"
            "relationTable (AssignableTo sampleExtern) [(Named 0, 1), (Interface, 2)] = [(1, [2]), (2, [])]"
    by (simp_all add: relationTable_def sampleExtern_def)
  have more: "isAssignableTo sampleExtern [(Named 0, 1), (Interface, 2)] 1 2"
             "\<not> isIdentical sampleExtern [(Named 0, 1), (Interface, 2)] 1 2"
    by (simp_all add: isAssignableTo_def isIdentical_def tbl runSwitch_def)
  show ?thesis
    using C8_identical_implies_assignable [where x = sampleExtern
        and pte = "[(Named 0, 1), (Interface, 2)]" and a = 1 and b = 1] sub more
    by (simp add: tbl)
qed

subsection \<open>TypeAssert\<close>

text \<open>
  Claim C10.  With an empty register \<open>TypeAssert\<close> returns the empty text, whatever the
  asserted type, the value and the comma-ok flag are.  With a register it returns one
  assignment: of a call of \<open>Interface.assertOk\<close> when comma-ok is asked for, of a call of
  \<open>Interface.assert\<close> otherwise.
\<close>

theorem C10_TypeAssert:
  "TypeAssert x [] v AssertedType CommaOk errorInfo = [] \<and>
   (register \<noteq> [] \<longrightarrow>
      TypeAssert x register v AssertedType True errorInfo =
        register @ ''=Interface.assertOk('' @ LogTypeUse x AssertedType @ '','' @
          IndirectValue x v errorInfo @ '');'' \<and>
      TypeAssert x register v AssertedType False errorInfo =
        register @ ''=Interface.assert('' @ LogTypeUse x AssertedType @ '','' @
          IndirectValue x v errorInfo @ '');'')"
  by (simp add: TypeAssert_def)

theorem C10_TypeAssert_witness:
  "TypeAssert sampleExtern [] (ssa_Value 0 Interface) (Basic types_Int) True ''pos'' = [] \<and>
   TypeAssert sampleExtern ''_r'' (ssa_Value 0 Interface) (Basic types_Int) True ''pos'' =
     ''_r=Interface.assertOk(7,_v);'' \<and>
   TypeAssert sampleExtern ''_r'' (ssa_Value 0 Interface) (Basic types_Int) False ''pos'' =
     ''_r=Interface.assert(7,_v);''"
  using C10_TypeAssert [of sampleExtern "ssa_Value 0 Interface" "Basic types_Int" True "''pos''" "''_r''"]
  by (simp add: sampleExtern_def)

end
